theory Spec2Isabelle
  imports Main "HOL-Library.Word"
begin

section \<open>Errors and bytes\<close>

text \<open>
  Go errors are values. The constructors cover the places where the two packages build
  or receive one: \<open>fmt.Errorf\<close> with a fixed message, \<open>fmt.Errorf\<close> wrapping a cause
  with \<open>%w\<close>, the base64 decoder's \<open>CorruptInputError\<close>, the \<open>*PathError\<close> of the
  \<open>os\<close> package, a timestamp that does not parse, and a failure reported by the remote
  calendar API.
\<close>

datatype errno = ENOENT | EISDIR

datatype error =
    Errorf string
  | Wrapf string error
  | CorruptInputError
  | PathError string string errno
  | ParseError string
  | RemoteError string

type_synonym byte = "8 word"

text \<open>The conversion \<open>[]byte(s)\<close>: a Go string is a byte sequence, copied byte by byte.\<close>

definition bytes_of_string :: "string \<Rightarrow> byte list" where
  "bytes_of_string s = map of_char s"

section \<open>The standard base64 decoder\<close>

text \<open>
  \<open>base64.StdEncoding.DecodeString\<close> of the Go standard library: the alphabet
  \<open>A-Z a-z 0-9 + /\<close>, padding with \<open>=\<close>, carriage returns and line feeds skipped
  wherever they stand, no strictness about the unused low bits of a padded quantum.
  The input is read in quanta of four characters; only the last quantum may be padded
  (\<open>xx==\<close> gives one byte, \<open>xxx=\<close> two), nothing may follow the padding, and an
  incomplete unpadded quantum is corrupt. On failure the decoder also hands back the
  bytes decoded so far; the caller below looks at them only when the error is nil, so
  the model returns the error alone.
\<close>

definition decodeMap :: "char \<Rightarrow> nat option" where
  "decodeMap c =
     (let n = (of_char c :: nat) in
      if 65 \<le> n \<and> n \<le> 90 then Some (n - 65)
      else if 97 \<le> n \<and> n \<le> 122 then Some (n - 71)
      else if 48 \<le> n \<and> n \<le> 57 then Some (n + 4)
      else if n = 43 then Some 62
      else if n = 47 then Some 63
      else None)"

text \<open>The 24-bit value \<open>d0<<18 | d1<<12 | d2<<6 | d3\<close> of a quantum and its three bytes.\<close>

definition quantum :: "nat \<Rightarrow> nat \<Rightarrow> nat \<Rightarrow> nat \<Rightarrow> nat" where
  "quantum d0 d1 d2 d3 = d0 * 262144 + d1 * 4096 + d2 * 64 + d3"

definition byte0 :: "nat \<Rightarrow> byte" where
  "byte0 val = of_nat (val div 65536)"

definition byte1 :: "nat \<Rightarrow> byte" where
  "byte1 val = of_nat (val div 256)"

definition byte2 :: "nat \<Rightarrow> byte" where
  "byte2 val = of_nat val"

fun decodeQuanta :: "char list \<Rightarrow> error + byte list" where
  "decodeQuanta [] = Inr []"
| "decodeQuanta (a # b # c # d # rest) =
     (case (decodeMap a, decodeMap b) of
        (Some d0, Some d1) \<Rightarrow>
          (if c = CHR ''='' then
             (if d = CHR ''='' \<and> rest = [] then Inr [byte0 (quantum d0 d1 0 0)]
              else Inl CorruptInputError)
           else
             (case decodeMap c of
                None \<Rightarrow> Inl CorruptInputError
              | Some d2 \<Rightarrow>
                  (if d = CHR ''='' then
                     (if rest = []
                      then Inr [byte0 (quantum d0 d1 d2 0), byte1 (quantum d0 d1 d2 0)]
                      else Inl CorruptInputError)
                   else
                     (case decodeMap d of
                        None \<Rightarrow> Inl CorruptInputError
                      | Some d3 \<Rightarrow>
                          (case decodeQuanta rest of
                             Inl e \<Rightarrow> Inl e
                           | Inr bs \<Rightarrow>
                               Inr (byte0 (quantum d0 d1 d2 d3) # byte1 (quantum d0 d1 d2 d3)
                                    # byte2 (quantum d0 d1 d2 d3) # bs))))))
      | _ \<Rightarrow> Inl CorruptInputError)"
| "decodeQuanta _ = Inl CorruptInputError"

definition DecodeString :: "string \<Rightarrow> error + byte list" where
  "DecodeString s = decodeQuanta (filter (\<lambda>c. c \<noteq> CHR 0x0A \<and> c \<noteq> CHR 0x0D) s)"

section \<open>The file system seen by \<open>os.Stat\<close> and \<open>os.ReadFile\<close>\<close>

text \<open>
  A path names nothing, a regular file with its content, or a directory. \<open>os.Stat\<close>
  succeeds on every existing entry; \<open>os.ReadFile\<close> returns the content of a regular
  file and fails on a directory (\<open>read: is a directory\<close>) as on a missing path. Only the
  error of \<open>os.Stat\<close> is modelled: the caller discards the \<open>FileInfo\<close>.
\<close>

datatype inode = Regular "byte list" | Directory

type_synonym filesystem = "string \<rightharpoonup> inode"

definition os_Stat :: "filesystem \<Rightarrow> string \<Rightarrow> error option" where
  "os_Stat fs name =
     (case fs name of
        None \<Rightarrow> Some (PathError ''stat'' name ENOENT)
      | Some _ \<Rightarrow> None)"

definition os_ReadFile :: "filesystem \<Rightarrow> string \<Rightarrow> error + byte list" where
  "os_ReadFile fs name =
     (case fs name of
        None \<Rightarrow> Inl (PathError ''open'' name ENOENT)
      | Some Directory \<Rightarrow> Inl (PathError ''read'' name EISDIR)
      | Some (Regular content) \<Rightarrow> Inr content)"

section \<open>Package config\<close>

record Config =
  Env :: string
  HttpPort :: string
  Timezone :: string
  GCalCalendarID :: string
  GoogleCredsJSON :: string
  SupabaseURL :: string
  SupabaseKey :: string
  RedisURL :: string

subsection \<open>The process environment and the dotenv overlay\<close>

text \<open>
  The process holds its environment variables (a variable may be set to the empty
  string, which differs from unset for the overlay but not for \<open>os.Getenv\<close>) and the
  two overlay files as the \<open>godotenv\<close> library finds them: absent, present but not
  loadable (unreadable or not parsable), or a set of entries. \<open>godotenv.Load\<close> sets
  every entry whose variable is not yet in the environment and leaves the environment
  alone when the file cannot be loaded.
\<close>

datatype dotenv_file = Absent | Malformed | Entries "string \<rightharpoonup> string"

record process =
  environ :: "string \<rightharpoonup> string"
  dotenv :: "string \<Rightarrow> dotenv_file"

definition os_Getenv :: "process \<Rightarrow> string \<Rightarrow> string" where
  "os_Getenv p key = (case environ p key of None \<Rightarrow> [] | Some v \<Rightarrow> v)"

definition godotenv_Load :: "string \<Rightarrow> process \<Rightarrow> error option \<times> process" where
  "godotenv_Load filename p =
     (case dotenv p filename of
        Absent \<Rightarrow> (Some (PathError ''open'' filename ENOENT), p)
      | Malformed \<Rightarrow> (Some (Errorf ''unexpected character in variable name''), p)
      | Entries m \<Rightarrow> (None, p\<lparr>environ := m ++ environ p\<rparr>))"

text \<open>\<open>os.IsNotExist\<close> of the error of \<open>os.Stat\<close> on an overlay file.\<close>

definition stat_IsNotExist :: "process \<Rightarrow> string \<Rightarrow> bool" where
  "stat_IsNotExist p filename = (dotenv p filename = Absent)"

definition getEnv :: "process \<Rightarrow> string \<Rightarrow> string \<Rightarrow> string" where
  "getEnv p key defaultValue =
     (let v = os_Getenv p key in if v \<noteq> [] then v else defaultValue)"

subsection \<open>Load\<close>

text \<open>
  \<open>Load\<close> returns the pair \<open>(Config, error)\<close> of the source, the error being
  \<open>None\<close> for nil, and the process after the overlay files were applied.
\<close>

definition Load :: "process \<Rightarrow> (Config \<times> error option) \<times> process" where
  "Load p0 =
     (let p1 = snd (godotenv_Load ''.env'' p0);
          p = (if stat_IsNotExist p1 ''.env''
               then snd (godotenv_Load ''config.env'' p1) else p1);
          config = \<lparr>Env = getEnv p ''APP_ENV'' ''development'',
                    HttpPort = getEnv p ''HTTP_PORT'' ''8080'',
                    Timezone = getEnv p ''TZ'' ''UTC'',
                    GCalCalendarID = getEnv p ''GCAL_CALENDAR_ID'' [],
                    GoogleCredsJSON = getEnv p ''GOOGLE_CREDS_JSON'' [],
                    SupabaseURL = getEnv p ''SUPABASE_URL'' [],
                    SupabaseKey = getEnv p ''SUPABASE_KEY'' [],
                    RedisURL = getEnv p ''REDIS_URL'' ''redis://localhost:6379''\<rparr>
      in if Env config = ''production'' then
           (if GCalCalendarID config = [] then
              ((config, Some (Errorf ''GCAL_CALENDAR_ID is required in production'')), p)
            else if GoogleCredsJSON config = [] then
              ((config, Some (Errorf ''GOOGLE_CREDS_JSON is required in production'')), p)
            else ((config, None), p))
         else ((config, None), p))"

subsection \<open>GetGoogleCreds\<close>

definition GetGoogleCreds :: "filesystem \<Rightarrow> Config \<Rightarrow> error + byte list" where
  "GetGoogleCreds fs c =
     (if length (GoogleCredsJSON c) > 0 then
        (case DecodeString (GoogleCredsJSON c) of
           Inr decoded \<Rightarrow> Inr decoded
         | Inl _ \<Rightarrow>
             (case os_Stat fs (GoogleCredsJSON c) of
                None \<Rightarrow> os_ReadFile fs (GoogleCredsJSON c)
              | Some _ \<Rightarrow> Inr (bytes_of_string (GoogleCredsJSON c))))
      else Inl (Errorf ''no Google credentials provided''))"

text \<open>The zero value \<open>Config{}\<close>.\<close>

definition zeroConfig :: Config where
  "zeroConfig = \<lparr>Env = [], HttpPort = [], Timezone = [], GCalCalendarID = [],
     GoogleCredsJSON = [], SupabaseURL = [], SupabaseKey = [], RedisURL = []\<rparr>"

section \<open>Package calendar\<close>

text \<open>
  \<open>time.Time\<close> is the type parameter \<open>'t\<close>. The adapter uses the standard library's
  time package through two functions only, both with the layout \<open>time.RFC3339\<close>:
  \<open>t.Format\<close> and \<open>time.Parse\<close>. They are the two fields of a \<open>time_package\<close>, a
  parameter of every adapter operation.
\<close>

record 't time_package =
  Format :: "'t \<Rightarrow> string"
  Parse :: "string \<Rightarrow> error + 't"

record 't TimeBlock =
  Start :: 't
  End :: 't
  Source :: string

record 't Appointment =
  Summary :: string
  Description :: string
  Start :: 't
  End :: 't
  AttendeeName :: string
  AttendeeEmail :: string
  Location :: string
  Timezone :: string

section \<open>The remote calendar API\<close>

text \<open>
  The request and response types of the calendar SDK, with the fields the adapter sets
  or reads and a few of the others (the SDK's \<open>Event\<close> has some forty more fields; they
  behave as \<open>Status\<close>, \<open>HtmlLink\<close> and \<open>Recurrence\<close> do here). The SDK's \<open>Id\<close> fields
  are written \<open>Id'\<close>. A nil pointer is \<open>None\<close>, a nil slice the empty list.
\<close>

record EventDateTime =
  Date :: string
  DateTime :: string
  TimeZone :: string

record EventAttendee =
  Email :: string
  DisplayName :: string
  Comment :: string
  Optional :: bool
  ResponseStatus :: string

record Event =
  Id' :: string
  Status :: string
  HtmlLink :: string
  Recurrence :: "string list"
  Summary :: string
  Description :: string
  Location :: string
  Start :: "EventDateTime option"
  End :: "EventDateTime option"
  Attendees :: "EventAttendee list"

record FreeBusyRequestItem =
  Id' :: string

record FreeBusyRequest =
  TimeMin :: string
  TimeMax :: string
  TimeZone :: string
  Items :: "FreeBusyRequestItem list"

record TimePeriod =
  Start :: string
  End :: string

record FreeBusyCalendar =
  Busy :: "TimePeriod list"
  Errors :: "string list"

record FreeBusyResponse =
  Kind :: string
  Calendars :: "string \<rightharpoonup> FreeBusyCalendar"

text \<open>
  A request the adapter sends, and the session handle \<open>*gcal.Service\<close>: what the
  remote answers to each kind of request (the result of \<open>call.Do()\<close>).
\<close>

datatype call =
    Freebusy_Query FreeBusyRequest
  | Events_Insert string Event
  | Events_Get string string
  | Events_Update string string Event
  | Events_Delete string string

record Service =
  Freebusy_Query_Do :: "FreeBusyRequest \<Rightarrow> error + FreeBusyResponse"
  Events_Insert_Do :: "string \<Rightarrow> Event \<Rightarrow> error + Event"
  Events_Get_Do :: "string \<Rightarrow> string \<Rightarrow> error + Event"
  Events_Update_Do :: "string \<Rightarrow> string \<Rightarrow> Event \<Rightarrow> error + Event"
  Events_Delete_Do :: "string \<Rightarrow> string \<Rightarrow> error option"

section \<open>Package google: the adapter\<close>

record Client =
  service :: Service
  calendarID :: string

text \<open>
  The methods have the pointer receiver \<open>c *Client\<close>. The state they run in holds the
  \<open>Client\<close> that \<open>c\<close> points to and the requests sent to the remote so far, oldest
  first; every operation returns its result and the state it leaves.
\<close>

record state =
  client :: Client
  requests :: "call list"

subsection \<open>ListBusy\<close>

text \<open>The loop over \<open>cal.Busy\<close>; \<open>timeBlocks\<close> is the slice appended to.\<close>

fun busyLoop :: "'t time_package \<Rightarrow> TimePeriod list \<Rightarrow> 't TimeBlock list \<Rightarrow> 't TimeBlock list" where
  "busyLoop tp [] timeBlocks = timeBlocks"
| "busyLoop tp (busy # rest) timeBlocks =
     (case Parse tp (TimePeriod.Start busy) of
        Inl _ \<Rightarrow> busyLoop tp rest timeBlocks
      | Inr start \<Rightarrow>
          (case Parse tp (TimePeriod.End busy) of
             Inl _ \<Rightarrow> busyLoop tp rest timeBlocks
           | Inr end' \<Rightarrow>
               busyLoop tp rest
                 (timeBlocks @ [\<lparr>TimeBlock.Start = start, End = end',
                                  Source = ''google_calendar''\<rparr>])))"

definition ListBusy :: "'t time_package \<Rightarrow> 't \<Rightarrow> 't \<Rightarrow> state \<Rightarrow> (error + 't TimeBlock list) \<times> state" where
  "ListBusy tp from to s =
     (let c = client s;
          query = \<lparr>TimeMin = Format tp from, TimeMax = Format tp to, TimeZone = [],
                   Items = [\<lparr>FreeBusyRequestItem.Id' = calendarID c\<rparr>]\<rparr>;
          s' = s\<lparr>requests := requests s @ [Freebusy_Query query]\<rparr>
      in case Freebusy_Query_Do (service c) query of
           Inl err \<Rightarrow> (Inl (Wrapf ''failed to query free/busy'' err), s')
         | Inr result \<Rightarrow>
             (case Calendars result (calendarID c) of
                Some cal \<Rightarrow> (Inr (busyLoop tp (Busy cal) []), s')
              | None \<Rightarrow> (Inr [], s')))"

subsection \<open>CreateEvent\<close>

definition CreateEvent :: "'t time_package \<Rightarrow> 't Appointment \<Rightarrow> state \<Rightarrow> (error + string) \<times> state" where
  "CreateEvent tp appt s =
     (let c = client s;
          event = \<lparr>Event.Id' = [], Status = [], HtmlLink = [], Recurrence = [],
                   Summary = Appointment.Summary appt,
                   Description = Appointment.Description appt,
                   Location = Appointment.Location appt,
                   Start = Some \<lparr>Date = [], DateTime = Format tp (Appointment.Start appt),
                                  TimeZone = Timezone appt\<rparr>,
                   End = Some \<lparr>Date = [], DateTime = Format tp (Appointment.End appt),
                                TimeZone = Timezone appt\<rparr>,
                   Attendees = []\<rparr>;
          event = (if AttendeeEmail appt \<noteq> [] then
                     event\<lparr>Attendees :=
                       [\<lparr>Email = AttendeeEmail appt, DisplayName = [], Comment = [],
                         Optional = False, ResponseStatus = []\<rparr>]\<rparr>
                   else event);
          s' = s\<lparr>requests := requests s @ [Events_Insert (calendarID c) event]\<rparr>
      in case Events_Insert_Do (service c) (calendarID c) event of
           Inl err \<Rightarrow> (Inl (Wrapf ''failed to create calendar event'' err), s')
         | Inr createdEvent \<Rightarrow> (Inr (Event.Id' createdEvent), s'))"

subsection \<open>UpdateEvent\<close>

definition UpdateEvent :: "'t time_package \<Rightarrow> string \<Rightarrow> 't Appointment \<Rightarrow> state \<Rightarrow> error option \<times> state" where
  "UpdateEvent tp eventID appt s =
     (let c = client s;
          s1 = s\<lparr>requests := requests s @ [Events_Get (calendarID c) eventID]\<rparr>
      in case Events_Get_Do (service c) (calendarID c) eventID of
           Inl err \<Rightarrow> (Some (Wrapf ''failed to get existing event'' err), s1)
         | Inr existingEvent \<Rightarrow>
             (let existingEvent = existingEvent\<lparr>Event.Summary := Appointment.Summary appt\<rparr>;
                  existingEvent = existingEvent\<lparr>Event.Description := Appointment.Description appt\<rparr>;
                  existingEvent = existingEvent\<lparr>Event.Start :=
                    Some \<lparr>Date = [], DateTime = Format tp (Appointment.Start appt),
                           TimeZone = Timezone appt\<rparr>\<rparr>;
                  existingEvent = existingEvent\<lparr>Event.End :=
                    Some \<lparr>Date = [], DateTime = Format tp (Appointment.End appt),
                           TimeZone = Timezone appt\<rparr>\<rparr>;
                  existingEvent = existingEvent\<lparr>Event.Location := Appointment.Location appt\<rparr>;
                  existingEvent = (if AttendeeEmail appt \<noteq> [] then
                       existingEvent\<lparr>Attendees :=
                         [\<lparr>Email = AttendeeEmail appt, DisplayName = [], Comment = [],
                           Optional = False, ResponseStatus = []\<rparr>]\<rparr>
                     else existingEvent);
                  s2 = s1\<lparr>requests := requests s1 @ [Events_Update (calendarID c) eventID existingEvent]\<rparr>
              in case Events_Update_Do (service c) (calendarID c) eventID existingEvent of
                   Inl err \<Rightarrow> (Some (Wrapf ''failed to update calendar event'' err), s2)
                 | Inr _ \<Rightarrow> (None, s2)))"

subsection \<open>DeleteEvent\<close>

definition DeleteEvent :: "string \<Rightarrow> state \<Rightarrow> error option \<times> state" where
  "DeleteEvent eventID s =
     (let c = client s;
          s' = s\<lparr>requests := requests s @ [Events_Delete (calendarID c) eventID]\<rparr>
      in case Events_Delete_Do (service c) (calendarID c) eventID of
           Some err \<Rightarrow> (Some (Wrapf ''failed to delete calendar event'' err), s')
         | None \<Rightarrow> (None, s'))"

section \<open>A time package for evaluation\<close>

text \<open>
  An instance of \<open>time_package\<close>: instants in UTC with whole seconds and a four-digit
  year, printed and read in the form \<open>2006-01-02T15:04:05Z\<close>, which is what the
  layout \<open>time.RFC3339\<close> gives for such instants. The parser checks the shape, the
  ranges and the length of the month. Go's parser reads more (numeric offsets,
  fractional seconds); the theorems below are stated for every time package, and this
  one evaluates the adapter on concrete timestamps.
\<close>

definition digitVal :: "char \<Rightarrow> nat option" where
  "digitVal c = (let n = (of_char c :: nat) in if 48 \<le> n \<and> n \<le> 57 then Some (n - 48) else None)"

fun twoDigits :: "string \<Rightarrow> (nat \<times> string) option" where
  "twoDigits (a # b # rest) =
     (case (digitVal a, digitVal b) of
        (Some x, Some y) \<Rightarrow> Some (10 * x + y, rest)
      | _ \<Rightarrow> None)"
| "twoDigits _ = None"

fun expect :: "char \<Rightarrow> string \<Rightarrow> string option" where
  "expect c (x # rest) = (if x = c then Some rest else None)"
| "expect c [] = None"

record utc_time =
  year :: nat
  month :: nat
  day :: nat
  hour :: nat
  minute :: nat
  second :: nat

definition daysIn :: "nat \<Rightarrow> nat \<Rightarrow> nat" where
  "daysIn y m =
     (if m = 2 then (if y mod 4 = 0 \<and> (y mod 100 \<noteq> 0 \<or> y mod 400 = 0) then 29 else 28)
      else if m = 4 \<or> m = 6 \<or> m = 9 \<or> m = 11 then 30 else 31)"

definition pad2 :: "nat \<Rightarrow> string" where
  "pad2 n = [''0123456789'' ! (n div 10 mod 10), ''0123456789'' ! (n mod 10)]"

definition formatUTC :: "utc_time \<Rightarrow> string" where
  "formatUTC t =
     pad2 (year t div 100) @ pad2 (year t) @ ''-'' @ pad2 (month t) @ ''-'' @ pad2 (day t) @ ''T''
     @ pad2 (hour t) @ '':'' @ pad2 (minute t) @ '':'' @ pad2 (second t) @ ''Z''"

definition parseUTC :: "string \<Rightarrow> error + utc_time" where
  "parseUTC s =
     (case
        Option.bind (twoDigits s) (\<lambda>(c, s).
        Option.bind (twoDigits s) (\<lambda>(y, s).
        Option.bind (expect (CHR ''-'') s) (\<lambda>s.
        Option.bind (twoDigits s) (\<lambda>(mo, s).
        Option.bind (expect (CHR ''-'') s) (\<lambda>s.
        Option.bind (twoDigits s) (\<lambda>(d, s).
        Option.bind (expect (CHR ''T'') s) (\<lambda>s.
        Option.bind (twoDigits s) (\<lambda>(h, s).
        Option.bind (expect (CHR '':'') s) (\<lambda>s.
        Option.bind (twoDigits s) (\<lambda>(mi, s).
        Option.bind (expect (CHR '':'') s) (\<lambda>s.
        Option.bind (twoDigits s) (\<lambda>(se, s).
          if s = ''Z'' \<and> 1 \<le> mo \<and> mo \<le> 12 \<and> 1 \<le> d \<and> d \<le> daysIn (100 * c + y) mo
             \<and> h < 24 \<and> mi < 60 \<and> se < 60
          then Some \<lparr>year = 100 * c + y, month = mo, day = d, hour = h, minute = mi, second = se\<rparr>
          else None))))))))))))
      of None \<Rightarrow> Inl (ParseError s) | Some t \<Rightarrow> Inr t)"

definition utc :: "utc_time time_package" where
  "utc = \<lparr>Format = formatUTC, Parse = parseUTC\<rparr>"



section \<open>Sample data\<close>

text \<open>
  Two instants, an event stored remotely, two free/busy entries, a remote that answers
  with a given set of calendars and knows the one event \<open>ev1\<close> of calendar
  \<open>primary\<close>, an adapter bound to a calendar with no request sent yet, and an
  appointment.
\<close>

definition nine :: utc_time where
  "nine = \<lparr>year = 2024, month = 3, day = 1, hour = 9, minute = 0, second = 0\<rparr>"

definition ten :: utc_time where
  "ten = \<lparr>year = 2024, month = 3, day = 1, hour = 10, minute = 0, second = 0\<rparr>"

definition storedEvent :: Event where
  "storedEvent = \<lparr>Event.Id' = ''ev1'', Status = ''confirmed'',
     HtmlLink = ''https://calendar.example/ev1'', Recurrence = [''RRULE:FREQ=WEEKLY''],
     Summary = ''Old summary'', Description = ''Old description'', Location = ''Room 1'',
     Start = Some \<lparr>Date = ''2024-02-01'', DateTime = [], TimeZone = []\<rparr>,
     End = Some \<lparr>Date = ''2024-02-02'', DateTime = [], TimeZone = []\<rparr>,
     Attendees = [\<lparr>Email = ''old@example.com'', DisplayName = ''Old Guest'', Comment = [],
                   Optional = False, ResponseStatus = ''accepted''\<rparr>]\<rparr>"

definition primaryCalendar :: FreeBusyCalendar where
  "primaryCalendar = \<lparr>Busy =
     [\<lparr>TimePeriod.Start = ''yesterday'', End = ''2024-03-01T10:00:00Z''\<rparr>,
      \<lparr>TimePeriod.Start = ''2024-03-01T09:00:00Z'', End = ''2024-03-01T10:00:00Z''\<rparr>],
     Errors = []\<rparr>"

definition otherCalendar :: FreeBusyCalendar where
  "otherCalendar = \<lparr>Busy =
     [\<lparr>TimePeriod.Start = ''2024-03-01T09:30:00Z'', End = ''2024-03-01T09:45:00Z''\<rparr>],
     Errors = []\<rparr>"

definition remote :: "(string \<rightharpoonup> FreeBusyCalendar) \<Rightarrow> Service" where
  "remote calendars =
     \<lparr>Freebusy_Query_Do = (\<lambda>q. Inr \<lparr>Kind = ''calendar#freeBusy'', Calendars = calendars\<rparr>),
      Events_Insert_Do = (\<lambda>cid ev. Inr (ev\<lparr>Event.Id' := ''ev2''\<rparr>)),
      Events_Get_Do = (\<lambda>cid eid. if cid = ''primary'' \<and> eid = ''ev1'' then Inr storedEvent
                                   else Inl (RemoteError ''404 Not Found'')),
      Events_Update_Do = (\<lambda>cid eid ev. Inr ev),
      Events_Delete_Do = (\<lambda>cid eid. None)\<rparr>"

definition adapter :: "(string \<rightharpoonup> FreeBusyCalendar) \<Rightarrow> string \<Rightarrow> state" where
  "adapter calendars cid = \<lparr>client = \<lparr>service = remote calendars, calendarID = cid\<rparr>, requests = []\<rparr>"

definition meeting :: "string \<Rightarrow> string \<Rightarrow> utc_time Appointment" where
  "meeting name email = \<lparr>Appointment.Summary = ''Review'', Description = ''Quarterly review'',
     Start = nine, End = ten, AttendeeName = name, AttendeeEmail = email,
     Location = ''Room 2'', Timezone = ''UTC''\<rparr>"

text \<open>
  For the configuration: a process with no variable set and no overlay file; a
  production process whose calendar identifier is set in the environment and whose
  credential field comes from the overlay file \<open>config.env\<close> (its own
  \<open>APP_ENV\<close> entry loses against the environment); a \<open>Config\<close> holding a raw
  credential field only; and a disk with two directories, a credential file, and a file
  whose name is valid base64.
\<close>

definition bare :: process where
  "bare = \<lparr>environ = Map.empty, dotenv = (\<lambda>filename. Absent)\<rparr>"

definition production :: "string \<Rightarrow> string \<Rightarrow> process" where
  "production calendarId creds =
     \<lparr>environ = [''APP_ENV'' \<mapsto> ''production'', ''GCAL_CALENDAR_ID'' \<mapsto> calendarId],
      dotenv = (\<lambda>filename. if filename = ''config.env''
                  then Entries [''GOOGLE_CREDS_JSON'' \<mapsto> creds, ''APP_ENV'' \<mapsto> ''staging'']
                  else Absent)\<rparr>"

definition credentials :: "string \<Rightarrow> Config" where
  "credentials raw = zeroConfig\<lparr>GoogleCredsJSON := raw\<rparr>"

definition disk :: filesystem where
  "disk = [''.'' \<mapsto> Directory,
           ''./secrets'' \<mapsto> Directory,
           ''creds.json'' \<mapsto> Regular (bytes_of_string ''{\"type\":\"service_account\"}''),
           ''e30='' \<mapsto> Regular (bytes_of_string ''file named like base64'')]"

section \<open>Properties\<close>

lemmas utc_simps = utc_def parseUTC_def formatUTC_def pad2_def daysIn_def digitVal_def

lemmas b64_simps = DecodeString_def decodeMap_def quantum_def byte0_def byte1_def byte2_def

lemmas load_simps = Load_def Let_def getEnv_def os_Getenv_def godotenv_Load_def
  stat_IsNotExist_def map_add_def

subsection \<open>ListBusy\<close>

text \<open>
  The loop appends, in order, one block for every interval both of whose timestamps
  parse, and nothing for the others.
\<close>

lemma busyLoop_eq:
  "busyLoop tp xs acc = acc @ List.map_filter
     (\<lambda>busy. case (Parse tp (TimePeriod.Start busy), Parse tp (TimePeriod.End busy)) of
        (Inr a, Inr b) \<Rightarrow> Some \<lparr>TimeBlock.Start = a, End = b, Source = ''google_calendar''\<rparr>
      | _ \<Rightarrow> None) xs"
  by (induction xs arbitrary: acc) (auto split: sum.splits)

text \<open>
  C4. When the free/busy query succeeds and the response has an entry for the bound
  calendar, \<open>ListBusy\<close> succeeds and returns, in the order of the response, exactly one
  \<open>TimeBlock\<close> tagged \<open>google_calendar\<close> for each busy interval whose start and end both
  parse; an interval with an unparsable start or end is dropped and the scan goes on. In
  particular, for one unparsable and one well-formed interval, in either order, the
  result is the single block of the well-formed one.
\<close>

theorem ListBusy_drops_unparsable_intervals:
  assumes "Freebusy_Query_Do (service (client s))
             \<lparr>TimeMin = Format tp from, TimeMax = Format tp to, TimeZone = [],
              Items = [\<lparr>FreeBusyRequestItem.Id' = calendarID (client s)\<rparr>]\<rparr> = Inr result"
    and "Calendars result (calendarID (client s)) = Some cal"
  shows "fst (ListBusy tp from to s) =
           Inr (List.map_filter
             (\<lambda>busy. case (Parse tp (TimePeriod.Start busy), Parse tp (TimePeriod.End busy)) of
                (Inr a, Inr b) \<Rightarrow>
                  Some \<lparr>TimeBlock.Start = a, End = b, Source = ''google_calendar''\<rparr>
              | _ \<Rightarrow> None)
             (Busy cal))
       \<and> (\<forall>bad good a b.
            (Busy cal = [bad, good] \<or> Busy cal = [good, bad])
            \<and> (isl (Parse tp (TimePeriod.Start bad)) \<or> isl (Parse tp (TimePeriod.End bad)))
            \<and> Parse tp (TimePeriod.Start good) = Inr a \<and> Parse tp (TimePeriod.End good) = Inr b
            \<longrightarrow> fst (ListBusy tp from to s) =
                  Inr [\<lparr>TimeBlock.Start = a, End = b, Source = ''google_calendar''\<rparr>])"
proof -
  have run: "fst (ListBusy tp from to s) = Inr (busyLoop tp (Busy cal) [])"
    using assms by (simp add: ListBusy_def Let_def)
  show ?thesis
    unfolding run busyLoop_eq
    by (auto simp: isl_def split: sum.splits)
qed

theorem ListBusy_drops_unparsable_intervals_witness:
  "fst (ListBusy utc nine ten (adapter [''primary'' \<mapsto> primaryCalendar] ''primary'')) =
     Inr [\<lparr>TimeBlock.Start = nine, End = ten, Source = ''google_calendar''\<rparr>]"
proof -
  let ?s = "adapter [''primary'' \<mapsto> primaryCalendar] ''primary''"
  have q: "Freebusy_Query_Do (service (client ?s))
             \<lparr>TimeMin = Format utc nine, TimeMax = Format utc ten, TimeZone = [],
              Items = [\<lparr>FreeBusyRequestItem.Id' = calendarID (client ?s)\<rparr>]\<rparr>
           = Inr \<lparr>Kind = ''calendar#freeBusy'', Calendars = [''primary'' \<mapsto> primaryCalendar]\<rparr>"
    by (simp add: adapter_def remote_def)
  have c: "Calendars \<lparr>Kind = ''calendar#freeBusy'', Calendars = [''primary'' \<mapsto> primaryCalendar]\<rparr>
             (calendarID (client ?s)) = Some primaryCalendar"
    by (simp add: adapter_def)
  have p1: "Parse utc ''yesterday'' = Inl (ParseError ''yesterday'')"
    by (simp add: utc_simps)
  have p2: "Parse utc ''2024-03-01T09:00:00Z'' = Inr nine"
    by (simp add: utc_simps nine_def)
  have p3: "Parse utc ''2024-03-01T10:00:00Z'' = Inr ten"
    by (simp add: utc_simps ten_def)
  show ?thesis
    using ListBusy_drops_unparsable_intervals [OF q c]
    by (simp add: primaryCalendar_def p1 p2 p3)
qed

text \<open>
  C6. \<open>ListBusy\<close> sends exactly one request, a free/busy query whose window is the
  formatted \<open>from\<close> and \<open>to\<close> and whose only item is the bound calendar identifier.
  When the query succeeds, the result is read from the entry of the bound calendar in
  the response and from nothing else: it is, in order, one block tagged
  \<open>google_calendar\<close> for each busy interval of that entry whose start and end parse,
  and the empty sequence when the response has no such entry. Hence two adapters bound
  to the same calendar, whose responses agree on that entry, return the same result
  whatever other entries the responses hold.
\<close>

theorem ListBusy_single_query_bound_calendar:
  "requests (snd (ListBusy tp from to s1)) =
     requests s1 @
       [Freebusy_Query \<lparr>TimeMin = Format tp from, TimeMax = Format tp to, TimeZone = [],
          Items = [\<lparr>FreeBusyRequestItem.Id' = calendarID (client s1)\<rparr>]\<rparr>]
   \<and> (Freebusy_Query_Do (service (client s1))
             \<lparr>TimeMin = Format tp from, TimeMax = Format tp to, TimeZone = [],
              Items = [\<lparr>FreeBusyRequestItem.Id' = calendarID (client s1)\<rparr>]\<rparr> = Inr r1
      \<longrightarrow> fst (ListBusy tp from to s1) =
            Inr (case Calendars r1 (calendarID (client s1)) of
                   None \<Rightarrow> []
                 | Some cal \<Rightarrow>
                     List.map_filter
                       (\<lambda>busy. case (Parse tp (TimePeriod.Start busy),
                                       Parse tp (TimePeriod.End busy)) of
                          (Inr a, Inr b) \<Rightarrow>
                            Some \<lparr>TimeBlock.Start = a, End = b, Source = ''google_calendar''\<rparr>
                        | _ \<Rightarrow> None)
                       (Busy cal)))
   \<and> (calendarID (client s2) = calendarID (client s1)
        \<and> Freebusy_Query_Do (service (client s1))
             \<lparr>TimeMin = Format tp from, TimeMax = Format tp to, TimeZone = [],
              Items = [\<lparr>FreeBusyRequestItem.Id' = calendarID (client s1)\<rparr>]\<rparr> = Inr r1
        \<and> Freebusy_Query_Do (service (client s2))
             \<lparr>TimeMin = Format tp from, TimeMax = Format tp to, TimeZone = [],
              Items = [\<lparr>FreeBusyRequestItem.Id' = calendarID (client s1)\<rparr>]\<rparr> = Inr r2
        \<and> Calendars r1 (calendarID (client s1)) = Calendars r2 (calendarID (client s1))
      \<longrightarrow> fst (ListBusy tp from to s1) = fst (ListBusy tp from to s2))"
proof (intro conjI)
  show "requests (snd (ListBusy tp from to s1)) =
           requests s1 @
             [Freebusy_Query \<lparr>TimeMin = Format tp from, TimeMax = Format tp to, TimeZone = [],
                Items = [\<lparr>FreeBusyRequestItem.Id' = calendarID (client s1)\<rparr>]\<rparr>]"
    by (simp add: ListBusy_def Let_def split: sum.splits option.splits)
next
  show "Freebusy_Query_Do (service (client s1))
             \<lparr>TimeMin = Format tp from, TimeMax = Format tp to, TimeZone = [],
              Items = [\<lparr>FreeBusyRequestItem.Id' = calendarID (client s1)\<rparr>]\<rparr> = Inr r1
      \<longrightarrow> fst (ListBusy tp from to s1) =
            Inr (case Calendars r1 (calendarID (client s1)) of
                   None \<Rightarrow> []
                 | Some cal \<Rightarrow>
                     List.map_filter
                       (\<lambda>busy. case (Parse tp (TimePeriod.Start busy),
                                       Parse tp (TimePeriod.End busy)) of
                          (Inr a, Inr b) \<Rightarrow>
                            Some \<lparr>TimeBlock.Start = a, End = b, Source = ''google_calendar''\<rparr>
                        | _ \<Rightarrow> None)
                       (Busy cal))"
    by (simp add: ListBusy_def Let_def busyLoop_eq split: option.splits)
next
  show "calendarID (client s2) = calendarID (client s1)
        \<and> Freebusy_Query_Do (service (client s1))
             \<lparr>TimeMin = Format tp from, TimeMax = Format tp to, TimeZone = [],
              Items = [\<lparr>FreeBusyRequestItem.Id' = calendarID (client s1)\<rparr>]\<rparr> = Inr r1
        \<and> Freebusy_Query_Do (service (client s2))
             \<lparr>TimeMin = Format tp from, TimeMax = Format tp to, TimeZone = [],
              Items = [\<lparr>FreeBusyRequestItem.Id' = calendarID (client s1)\<rparr>]\<rparr> = Inr r2
        \<and> Calendars r1 (calendarID (client s1)) = Calendars r2 (calendarID (client s1))
      \<longrightarrow> fst (ListBusy tp from to s1) = fst (ListBusy tp from to s2)"
    by (simp add: ListBusy_def Let_def split: option.splits)
qed

text \<open>
  A response with the entries \<open>primary\<close> and \<open>other\<close>: the result is the one
  well-formed interval of \<open>primary\<close>, the interval of \<open>other\<close> is not in it, and a
  response with \<open>primary\<close> alone gives the same.
\<close>

theorem ListBusy_single_query_bound_calendar_witness:
  "requests (snd (ListBusy utc nine ten
       (adapter [''primary'' \<mapsto> primaryCalendar, ''other'' \<mapsto> otherCalendar] ''primary''))) =
     [Freebusy_Query \<lparr>TimeMin = ''2024-03-01T09:00:00Z'', TimeMax = ''2024-03-01T10:00:00Z'',
        TimeZone = [], Items = [\<lparr>FreeBusyRequestItem.Id' = ''primary''\<rparr>]\<rparr>]
   \<and> fst (ListBusy utc nine ten
       (adapter [''primary'' \<mapsto> primaryCalendar, ''other'' \<mapsto> otherCalendar] ''primary'')) =
     Inr [\<lparr>TimeBlock.Start = nine, End = ten, Source = ''google_calendar''\<rparr>]
   \<and> fst (ListBusy utc nine ten
       (adapter [''primary'' \<mapsto> primaryCalendar, ''other'' \<mapsto> otherCalendar] ''primary'')) =
     fst (ListBusy utc nine ten (adapter [''primary'' \<mapsto> primaryCalendar] ''primary''))"
proof -
  let ?s1 = "adapter [''primary'' \<mapsto> primaryCalendar, ''other'' \<mapsto> otherCalendar] ''primary''"
  let ?s2 = "adapter [''primary'' \<mapsto> primaryCalendar] ''primary''"
  let ?r1 = "\<lparr>Kind = ''calendar#freeBusy'',
           Calendars = [''primary'' \<mapsto> primaryCalendar, ''other'' \<mapsto> otherCalendar]\<rparr>"
  let ?r2 = "\<lparr>Kind = ''calendar#freeBusy'', Calendars = [''primary'' \<mapsto> primaryCalendar]\<rparr>"
  let ?q = "\<lparr>TimeMin = Format utc nine, TimeMax = Format utc ten, TimeZone = [],
             Items = [\<lparr>FreeBusyRequestItem.Id' = calendarID (client ?s1)\<rparr>]\<rparr>"
  have same: "calendarID (client ?s2) = calendarID (client ?s1)"
    by (simp add: adapter_def)
  have q1: "Freebusy_Query_Do (service (client ?s1)) ?q = Inr ?r1"
    by (simp add: adapter_def remote_def)
  have q2: "Freebusy_Query_Do (service (client ?s2)) ?q = Inr ?r2"
    by (simp add: adapter_def remote_def)
  have agree: "Calendars ?r1 (calendarID (client ?s1)) = Calendars ?r2 (calendarID (client ?s1))"
    by (simp add: adapter_def)
  have entry: "Calendars ?r1 (calendarID (client ?s1)) = Some primaryCalendar"
    by (simp add: adapter_def)
  have f1: "Format utc nine = ''2024-03-01T09:00:00Z''"
    by (simp add: utc_simps nine_def)
  have f2: "Format utc ten = ''2024-03-01T10:00:00Z''"
    by (simp add: utc_simps ten_def)
  have p1: "Parse utc ''yesterday'' = Inl (ParseError ''yesterday'')"
    by (simp add: utc_simps)
  have p2: "Parse utc ''2024-03-01T09:00:00Z'' = Inr nine"
    by (simp add: utc_simps nine_def)
  have p3: "Parse utc ''2024-03-01T10:00:00Z'' = Inr ten"
    by (simp add: utc_simps ten_def)
  have b: "calendarID (client ?s1) = ''primary''" "requests ?s1 = []"
    by (simp_all add: adapter_def)
  have sent: "requests (snd (ListBusy utc nine ten ?s1)) = requests ?s1 @ [Freebusy_Query ?q]"
    using ListBusy_single_query_bound_calendar [of utc nine ten ?s1 ?r1 ?s2 ?r2] by blast
  have result: "fst (ListBusy utc nine ten ?s1) =
      Inr (case Calendars ?r1 (calendarID (client ?s1)) of
             None \<Rightarrow> []
           | Some cal \<Rightarrow>
               List.map_filter
                 (\<lambda>busy. case (Parse utc (TimePeriod.Start busy),
                                 Parse utc (TimePeriod.End busy)) of
                    (Inr a, Inr b) \<Rightarrow>
                      Some \<lparr>TimeBlock.Start = a, End = b, Source = ''google_calendar''\<rparr>
                  | _ \<Rightarrow> None)
                 (Busy cal))"
    using ListBusy_single_query_bound_calendar [of utc nine ten ?s1 ?r1 ?s2 ?r2] q1 by blast
  have equal: "fst (ListBusy utc nine ten ?s1) = fst (ListBusy utc nine ten ?s2)"
    using ListBusy_single_query_bound_calendar [of utc nine ten ?s1 ?r1 ?s2 ?r2]
          same q1 q2 agree by blast
  have blocks: "fst (ListBusy utc nine ten ?s1) =
      Inr [\<lparr>TimeBlock.Start = nine, End = ten, Source = ''google_calendar''\<rparr>]"
    unfolding result entry by (simp add: primaryCalendar_def p1 p2 p3)
  have sent': "requests (snd (ListBusy utc nine ten ?s1)) =
      [Freebusy_Query \<lparr>TimeMin = ''2024-03-01T09:00:00Z'', TimeMax = ''2024-03-01T10:00:00Z'',
         TimeZone = [], Items = [\<lparr>FreeBusyRequestItem.Id' = ''primary''\<rparr>]\<rparr>]"
    using sent by (simp add: f1 f2 b)
  show ?thesis
    using sent' blocks equal by blast
qed

text \<open>
  C9. When the query succeeds and the response has no entry for the bound calendar,
  \<open>ListBusy\<close> returns the empty sequence and no error.
\<close>

theorem ListBusy_missing_calendar_entry:
  assumes "Freebusy_Query_Do (service (client s))
             \<lparr>TimeMin = Format tp from, TimeMax = Format tp to, TimeZone = [],
              Items = [\<lparr>FreeBusyRequestItem.Id' = calendarID (client s)\<rparr>]\<rparr> = Inr result"
    and "Calendars result (calendarID (client s)) = None"
  shows "fst (ListBusy tp from to s) = Inr []"
  using assms by (simp add: ListBusy_def Let_def)

text \<open>
  An adapter bound to \<open>primary\<close>, a response that knows \<open>other\<close> only.
\<close>

theorem ListBusy_missing_calendar_entry_witness:
  "fst (ListBusy utc nine ten (adapter [''other'' \<mapsto> otherCalendar] ''primary'')) = Inr []"
proof -
  let ?s = "adapter [''other'' \<mapsto> otherCalendar] ''primary''"
  have q: "Freebusy_Query_Do (service (client ?s))
             \<lparr>TimeMin = Format utc nine, TimeMax = Format utc ten, TimeZone = [],
              Items = [\<lparr>FreeBusyRequestItem.Id' = calendarID (client ?s)\<rparr>]\<rparr>
           = Inr \<lparr>Kind = ''calendar#freeBusy'', Calendars = [''other'' \<mapsto> otherCalendar]\<rparr>"
    by (simp add: adapter_def remote_def)
  have c: "Calendars \<lparr>Kind = ''calendar#freeBusy'', Calendars = [''other'' \<mapsto> otherCalendar]\<rparr>
             (calendarID (client ?s)) = None"
    by (simp add: adapter_def)
  show ?thesis
    using ListBusy_missing_calendar_entry [OF q c] .
qed

subsection \<open>CreateEvent\<close>

text \<open>
  C5. \<open>CreateEvent\<close> sends one insert request. The attendee list of its event is
  empty when the attendee email is empty, and otherwise holds one entry with that email
  and every other field zero. The attendee name has no influence on the request, the
  result or the state.
\<close>

theorem CreateEvent_attendee_payload:
  "(\<exists>event.
      requests (snd (CreateEvent tp appt s)) =
        requests s @ [Events_Insert (calendarID (client s)) event]
      \<and> Attendees event =
          (if AttendeeEmail appt = [] then []
           else [\<lparr>Email = AttendeeEmail appt, DisplayName = [], Comment = [],
                   Optional = False, ResponseStatus = []\<rparr>]))
   \<and> CreateEvent tp (appt\<lparr>AttendeeName := name\<rparr>) s = CreateEvent tp appt s"
  by (simp add: CreateEvent_def Let_def split: sum.splits)

text \<open>
  An appointment with an attendee email, and the same without.
\<close>

theorem CreateEvent_attendee_payload_witness:
  "(\<exists>event.
      requests (snd (CreateEvent utc (meeting ''Ada'' ''ada@example.com'')
                       (adapter Map.empty ''primary''))) =
        [Events_Insert ''primary'' event]
      \<and> Attendees event =
          [\<lparr>Email = ''ada@example.com'', DisplayName = [], Comment = [],
             Optional = False, ResponseStatus = []\<rparr>])
   \<and> (\<exists>event.
      requests (snd (CreateEvent utc (meeting ''Ada'' []) (adapter Map.empty ''primary''))) =
        [Events_Insert ''primary'' event]
      \<and> Attendees event = [])"
  using CreateEvent_attendee_payload [of utc "meeting ''Ada'' ''ada@example.com''"
          "adapter Map.empty ''primary''" "''Ada''"]
        CreateEvent_attendee_payload [of utc "meeting ''Ada'' []"
          "adapter Map.empty ''primary''" "''Ada''"]
  by (simp add: meeting_def adapter_def)

subsection \<open>UpdateEvent\<close>

text \<open>
  C8. When the remote does not know the event (the fetch fails), \<open>UpdateEvent\<close>
  returns the fetch error wrapped, leaves the \<open>Client\<close> (calendar identifier and
  session handle) as it was, and has sent the fetch request only: no update request.
\<close>

theorem UpdateEvent_missing_event:
  assumes "Events_Get_Do (service (client s)) (calendarID (client s)) eventID = Inl err"
  shows "fst (UpdateEvent tp eventID appt s) = Some (Wrapf ''failed to get existing event'' err)
       \<and> client (snd (UpdateEvent tp eventID appt s)) = client s
       \<and> requests (snd (UpdateEvent tp eventID appt s)) =
           requests s @ [Events_Get (calendarID (client s)) eventID]"
  using assms by (simp add: UpdateEvent_def Let_def)

text \<open>
  The event \<open>ev9\<close>, which the sample remote does not know.
\<close>

theorem UpdateEvent_missing_event_witness:
  "fst (UpdateEvent utc ''ev9'' (meeting ''Ada'' ''ada@example.com'') (adapter Map.empty ''primary''))
     = Some (Wrapf ''failed to get existing event'' (RemoteError ''404 Not Found''))
   \<and> client (snd (UpdateEvent utc ''ev9'' (meeting ''Ada'' ''ada@example.com'')
                    (adapter Map.empty ''primary'')))
     = \<lparr>service = remote Map.empty, calendarID = ''primary''\<rparr>
   \<and> requests (snd (UpdateEvent utc ''ev9'' (meeting ''Ada'' ''ada@example.com'')
                      (adapter Map.empty ''primary'')))
     = [Events_Get ''primary'' ''ev9'']"
proof -
  let ?s = "adapter Map.empty ''primary''"
  have g: "Events_Get_Do (service (client ?s)) (calendarID (client ?s)) ''ev9''
             = Inl (RemoteError ''404 Not Found'')"
    by (simp add: adapter_def remote_def)
  show ?thesis
    using UpdateEvent_missing_event [OF g, of utc "meeting ''Ada'' ''ada@example.com''"]
    by (simp add: adapter_def)
qed

text \<open>
  C3, as the code has it. After a successful fetch \<open>UpdateEvent\<close> sends the fetch
  and one update request. The event of the update request carries the appointment's
  summary, description, start, end (each with the appointment's timezone label) and
  location; its attendee list is the single entry with the appointment's attendee email
  when that email is non-empty, and the fetched event's attendee list when it is empty;
  the fields outside the \<open>Appointment\<close> type are those of the fetched event. The
  operation fails exactly when the remote rejects the update.
\<close>

theorem UpdateEvent_fetch_then_overwrite:
  assumes "Events_Get_Do (service (client s)) (calendarID (client s)) eventID = Inr existing"
  shows "\<exists>updated.
      requests (snd (UpdateEvent tp eventID appt s)) =
        requests s @ [Events_Get (calendarID (client s)) eventID,
                      Events_Update (calendarID (client s)) eventID updated]
    \<and> Event.Summary updated = Appointment.Summary appt
    \<and> Event.Description updated = Appointment.Description appt
    \<and> Event.Start updated =
        Some \<lparr>Date = [], DateTime = Format tp (Appointment.Start appt), TimeZone = Timezone appt\<rparr>
    \<and> Event.End updated =
        Some \<lparr>Date = [], DateTime = Format tp (Appointment.End appt), TimeZone = Timezone appt\<rparr>
    \<and> Event.Location updated = Appointment.Location appt
    \<and> Attendees updated =
        (if AttendeeEmail appt = [] then Attendees existing
         else [\<lparr>Email = AttendeeEmail appt, DisplayName = [], Comment = [],
                 Optional = False, ResponseStatus = []\<rparr>])
    \<and> Event.Id' updated = Event.Id' existing
    \<and> Status updated = Status existing
    \<and> HtmlLink updated = HtmlLink existing
    \<and> Recurrence updated = Recurrence existing
    \<and> fst (UpdateEvent tp eventID appt s) =
        (case Events_Update_Do (service (client s)) (calendarID (client s)) eventID updated of
           Inl err \<Rightarrow> Some (Wrapf ''failed to update calendar event'' err)
         | Inr _ \<Rightarrow> None)"
  using assms by (simp add: UpdateEvent_def Let_def split: sum.splits)

text \<open>
  Updating the stored event \<open>ev1\<close> with an appointment that names an attendee.
\<close>

theorem UpdateEvent_fetch_then_overwrite_witness:
  "\<exists>updated.
      requests (snd (UpdateEvent utc ''ev1'' (meeting ''Ada'' ''ada@example.com'')
                       (adapter Map.empty ''primary''))) =
        [Events_Get ''primary'' ''ev1'', Events_Update ''primary'' ''ev1'' updated]
    \<and> Event.Summary updated = ''Review''
    \<and> Attendees updated =
        [\<lparr>Email = ''ada@example.com'', DisplayName = [], Comment = [],
           Optional = False, ResponseStatus = []\<rparr>]
    \<and> Recurrence updated = [''RRULE:FREQ=WEEKLY'']"
proof -
  let ?s = "adapter Map.empty ''primary''"
  have g: "Events_Get_Do (service (client ?s)) (calendarID (client ?s)) ''ev1'' = Inr storedEvent"
    by (simp add: adapter_def remote_def)
  show ?thesis
    using UpdateEvent_fetch_then_overwrite [OF g, of utc "meeting ''Ada'' ''ada@example.com''"]
    by (auto simp add: adapter_def meeting_def storedEvent_def)
qed

text \<open>
  Against C3 as stated (the updated event carries the appointment's attendee): an
  appointment with no attendee email updates \<open>ev1\<close> successfully, and the event sent
  still lists the old attendee.
\<close>

theorem UpdateEvent_keeps_attendees_counterexample:
  "AttendeeEmail (meeting [] []) = []
   \<and> fst (UpdateEvent utc ''ev1'' (meeting [] []) (adapter Map.empty ''primary'')) = None
   \<and> requests (snd (UpdateEvent utc ''ev1'' (meeting [] []) (adapter Map.empty ''primary''))) =
       [Events_Get ''primary'' ''ev1'',
        Events_Update ''primary'' ''ev1''
          \<lparr>Event.Id' = ''ev1'', Status = ''confirmed'',
           HtmlLink = ''https://calendar.example/ev1'', Recurrence = [''RRULE:FREQ=WEEKLY''],
           Summary = ''Review'', Description = ''Quarterly review'', Location = ''Room 2'',
           Start = Some \<lparr>Date = [], DateTime = ''2024-03-01T09:00:00Z'', TimeZone = ''UTC''\<rparr>,
           End = Some \<lparr>Date = [], DateTime = ''2024-03-01T10:00:00Z'', TimeZone = ''UTC''\<rparr>,
           Attendees = [\<lparr>Email = ''old@example.com'', DisplayName = ''Old Guest'', Comment = [],
                         Optional = False, ResponseStatus = ''accepted''\<rparr>]\<rparr>]"
  by (simp add: UpdateEvent_def Let_def nine_def ten_def storedEvent_def remote_def adapter_def
        meeting_def utc_simps)

subsection \<open>Load\<close>

text \<open>
  C2. \<open>Load\<close> returns an error if and only if the resolved environment name is
  \<open>production\<close> and the calendar identifier or the raw credential field is empty;
  with any other environment name it returns no error.
\<close>

theorem Load_fails_iff_production_incomplete:
  assumes "Load p = ((config, err), p')"
  shows "(err \<noteq> None \<longleftrightarrow>
            Env config = ''production'' \<and> (GCalCalendarID config = [] \<or> GoogleCredsJSON config = []))
       \<and> (Env config \<noteq> ''production'' \<longrightarrow> err = None)"
  using assms unfolding Load_def Let_def by (auto split: if_splits)

text \<open>
  Production without a calendar identifier, and a process with nothing set.
\<close>

theorem Load_fails_iff_production_incomplete_witness:
  "snd (fst (Load (production [] ''e30=''))) =
     Some (Errorf ''GCAL_CALENDAR_ID is required in production'')
   \<and> Env (fst (fst (Load (production [] ''e30='')))) = ''production''
   \<and> GCalCalendarID (fst (fst (Load (production [] ''e30='')))) = []
   \<and> fst (Load bare) =
       (\<lparr>Env = ''development'', HttpPort = ''8080'', Timezone = ''UTC'', GCalCalendarID = [],
         GoogleCredsJSON = [], SupabaseURL = [], SupabaseKey = [],
         RedisURL = ''redis://localhost:6379''\<rparr>, None)"
proof -
  let ?config = "\<lparr>Env = ''production'', HttpPort = ''8080'', Timezone = ''UTC'',
       GCalCalendarID = [], GoogleCredsJSON = ''e30='', SupabaseURL = [], SupabaseKey = [],
       RedisURL = ''redis://localhost:6379''\<rparr>"
  let ?err = "Some (Errorf ''GCAL_CALENDAR_ID is required in production'')"
  let ?dev = "\<lparr>Env = ''development'', HttpPort = ''8080'', Timezone = ''UTC'',
       GCalCalendarID = [], GoogleCredsJSON = [], SupabaseURL = [], SupabaseKey = [],
       RedisURL = ''redis://localhost:6379''\<rparr>"
  have run: "fst (Load (production [] ''e30='')) = (?config, ?err)"
    by (simp add: load_simps production_def)
  have whole: "Load (production [] ''e30='') = ((?config, ?err), snd (Load (production [] ''e30='')))"
    by (simp add: prod_eq_iff run)
  have dev: "fst (fst (Load bare)) = ?dev"
    by (simp add: load_simps bare_def)
  have whole_dev: "Load bare = ((?dev, snd (fst (Load bare))), snd (Load bare))"
    by (simp add: prod_eq_iff dev)
  have "snd (fst (Load bare)) = None"
    using Load_fails_iff_production_incomplete [OF whole_dev] by simp
  then have "fst (Load bare) = (?dev, None)"
    by (simp add: prod_eq_iff dev)
  then show ?thesis
    using Load_fails_iff_production_incomplete [OF whole] by (simp add: run)
qed

text \<open>
  C10. When \<open>Load\<close> returns an error, the \<open>Config\<close> beside it is the resolved
  one: every field is read from the environment left by the overlay, or is its default.
  It is not the zero value: the environment name is \<open>production\<close>, and the port, the
  timezone and the Redis URL are never empty.
\<close>

theorem Load_error_keeps_resolved_config:
  assumes "Load p = ((config, Some e), p')"
  shows "config = \<lparr>Env = getEnv p' ''APP_ENV'' ''development'',
                   HttpPort = getEnv p' ''HTTP_PORT'' ''8080'',
                   Timezone = getEnv p' ''TZ'' ''UTC'',
                   GCalCalendarID = getEnv p' ''GCAL_CALENDAR_ID'' [],
                   GoogleCredsJSON = getEnv p' ''GOOGLE_CREDS_JSON'' [],
                   SupabaseURL = getEnv p' ''SUPABASE_URL'' [],
                   SupabaseKey = getEnv p' ''SUPABASE_KEY'' [],
                   RedisURL = getEnv p' ''REDIS_URL'' ''redis://localhost:6379''\<rparr>
       \<and> Env config = ''production''
       \<and> HttpPort config \<noteq> [] \<and> Config.Timezone config \<noteq> [] \<and> RedisURL config \<noteq> []
       \<and> config \<noteq> zeroConfig"
proof -
  have fields: "config = \<lparr>Env = getEnv p' ''APP_ENV'' ''development'',
                   HttpPort = getEnv p' ''HTTP_PORT'' ''8080'',
                   Timezone = getEnv p' ''TZ'' ''UTC'',
                   GCalCalendarID = getEnv p' ''GCAL_CALENDAR_ID'' [],
                   GoogleCredsJSON = getEnv p' ''GOOGLE_CREDS_JSON'' [],
                   SupabaseURL = getEnv p' ''SUPABASE_URL'' [],
                   SupabaseKey = getEnv p' ''SUPABASE_KEY'' [],
                   RedisURL = getEnv p' ''REDIS_URL'' ''redis://localhost:6379''\<rparr>"
    using assms unfolding Load_def Let_def by (auto split: if_splits)
  have prod: "Env config = ''production''"
    using assms unfolding Load_def Let_def by (auto split: if_splits)
  have nonempty: "\<And>key dflt. dflt \<noteq> [] \<Longrightarrow> getEnv p' key dflt \<noteq> []"
    by (simp add: getEnv_def Let_def)
  have port: "HttpPort config \<noteq> []"
    by (subst fields) (simp add: nonempty)
  have tz: "Config.Timezone config \<noteq> []"
    by (subst fields) (simp add: nonempty)
  have redis: "RedisURL config \<noteq> []"
    by (subst fields) (simp add: nonempty)
  have nz: "config \<noteq> zeroConfig"
    using prod by (auto simp: zeroConfig_def)
  show ?thesis
    using fields prod port tz redis nz by blast
qed

text \<open>
  Production with a calendar identifier and no credentials.
\<close>

theorem Load_error_keeps_resolved_config_witness:
  "fst (Load (production ''primary'' [])) =
     (\<lparr>Env = ''production'', HttpPort = ''8080'', Timezone = ''UTC'',
       GCalCalendarID = ''primary'', GoogleCredsJSON = [], SupabaseURL = [], SupabaseKey = [],
       RedisURL = ''redis://localhost:6379''\<rparr>,
      Some (Errorf ''GOOGLE_CREDS_JSON is required in production''))
   \<and> fst (fst (Load (production ''primary'' []))) \<noteq> zeroConfig"
proof -
  let ?config = "\<lparr>Env = ''production'', HttpPort = ''8080'', Timezone = ''UTC'',
       GCalCalendarID = ''primary'', GoogleCredsJSON = [], SupabaseURL = [], SupabaseKey = [],
       RedisURL = ''redis://localhost:6379''\<rparr>"
  let ?err = "Errorf ''GOOGLE_CREDS_JSON is required in production''"
  have run: "fst (Load (production ''primary'' [])) = (?config, Some ?err)"
    by (simp add: load_simps production_def)
  have whole: "Load (production ''primary'' []) =
      ((?config, Some ?err), snd (Load (production ''primary'' [])))"
    by (simp add: prod_eq_iff run)
  have "?config \<noteq> zeroConfig"
    using Load_error_keeps_resolved_config [OF whole] by blast
  then show ?thesis
    by (simp add: run)
qed

subsection \<open>GetGoogleCreds\<close>

text \<open>
  C1, as the code has it. For a non-empty credential field: if the field decodes as
  standard base64, the decoded bytes are returned, whatever the field names on disk;
  otherwise, if the field names a regular file, the content of the file is returned, and
  if it names a directory, the read error is returned; otherwise the bytes of the field
  itself are returned.
\<close>

theorem GetGoogleCreds_resolution_order:
  assumes "GoogleCredsJSON c \<noteq> []"
  shows "GetGoogleCreds fs c =
     (case DecodeString (GoogleCredsJSON c) of
        Inr decoded \<Rightarrow> Inr decoded
      | Inl _ \<Rightarrow>
          (case fs (GoogleCredsJSON c) of
             Some (Regular content) \<Rightarrow> Inr content
           | Some Directory \<Rightarrow> Inl (PathError ''read'' (GoogleCredsJSON c) EISDIR)
           | None \<Rightarrow> Inr (bytes_of_string (GoogleCredsJSON c))))"
  using assms
  by (simp add: GetGoogleCreds_def os_Stat_def os_ReadFile_def
           split: sum.splits option.splits inode.splits)

text \<open>
  A base64 field that is also the name of a file, the name of a credential file, raw
  JSON, and the name of a directory.
\<close>

theorem GetGoogleCreds_resolution_order_witness:
  "GetGoogleCreds disk (credentials ''e30='') = Inr [123, 125]
   \<and> GetGoogleCreds disk (credentials ''creds.json'')
       = Inr (bytes_of_string ''{\"type\":\"service_account\"}'')
   \<and> GetGoogleCreds disk (credentials ''{}'') = Inr [123, 125]
   \<and> GetGoogleCreds disk (credentials ''./secrets'')
       = Inl (PathError ''read'' ''./secrets'' EISDIR)"
proof -
  have d1: "DecodeString ''e30='' = Inr [123, 125]"
    by (simp add: b64_simps)
  have d2: "DecodeString ''creds.json'' = Inl CorruptInputError"
    by (simp add: b64_simps)
  have d3: "DecodeString ''{}'' = Inl CorruptInputError"
    by (simp add: b64_simps)
  have d4: "DecodeString ''./secrets'' = Inl CorruptInputError"
    by (simp add: b64_simps)
  have raw: "bytes_of_string ''{}'' = [123, 125]"
    by (simp add: bytes_of_string_def)
  show ?thesis
    using GetGoogleCreds_resolution_order [of "credentials ''e30=''" disk]
          GetGoogleCreds_resolution_order [of "credentials ''creds.json''" disk]
          GetGoogleCreds_resolution_order [of "credentials ''{}''" disk]
          GetGoogleCreds_resolution_order [of "credentials ''./secrets''" disk]
    by (simp add: credentials_def zeroConfig_def disk_def d1 d2 d3 d4 raw)
qed

text \<open>
  Against C1 as stated (file content, else the field's own bytes): the field \<open>.\<close> is
  not base64 and names a directory; the result is the read error, neither a file's
  content nor the bytes of the field.
\<close>

theorem GetGoogleCreds_directory_counterexample:
  "GoogleCredsJSON (credentials ''.'') \<noteq> []
   \<and> DecodeString ''.'' = Inl CorruptInputError
   \<and> disk ''.'' = Some Directory
   \<and> GetGoogleCreds disk (credentials ''.'') = Inl (PathError ''read'' ''.'' EISDIR)
   \<and> GetGoogleCreds disk (credentials ''.'') \<noteq> Inr (bytes_of_string ''.'')"
  by (simp add: GetGoogleCreds_def os_Stat_def os_ReadFile_def credentials_def zeroConfig_def
        disk_def DecodeString_def)

text \<open>
  The decoder has one error.
\<close>

lemma decodeQuanta_error: "decodeQuanta cs = Inl e \<Longrightarrow> e = CorruptInputError"
  by (induction cs arbitrary: e rule: decodeQuanta.induct)
     (auto split: option.splits if_splits sum.splits)

text \<open>
  C7, as the code has it. \<open>GetGoogleCreds\<close> fails with the error
  \<open>no Google credentials provided\<close> if and only if the credential field is empty. For
  a non-empty field it returns bytes, except for a field that is not base64 and names a
  directory, where it returns the read error.
\<close>

theorem GetGoogleCreds_no_credentials_iff_empty:
  "(GetGoogleCreds fs c = Inl (Errorf ''no Google credentials provided'')
      \<longleftrightarrow> GoogleCredsJSON c = [])
   \<and> (GoogleCredsJSON c \<noteq> [] \<longrightarrow>
        (\<exists>bytes. GetGoogleCreds fs c = Inr bytes)
        \<or> (DecodeString (GoogleCredsJSON c) = Inl CorruptInputError
            \<and> fs (GoogleCredsJSON c) = Some Directory
            \<and> GetGoogleCreds fs c = Inl (PathError ''read'' (GoogleCredsJSON c) EISDIR)))"
proof (cases "GoogleCredsJSON c = []")
  case True
  then show ?thesis by (simp add: GetGoogleCreds_def)
next
  case False
  have err: "\<And>e. DecodeString (GoogleCredsJSON c) = Inl e \<Longrightarrow> e = CorruptInputError"
    unfolding DecodeString_def by (rule decodeQuanta_error)
  show ?thesis
    using False err
    by (auto simp: GetGoogleCreds_def os_Stat_def os_ReadFile_def
             split: sum.splits option.splits inode.splits)
qed

text \<open>
  The empty field and a raw secret.
\<close>

theorem GetGoogleCreds_no_credentials_iff_empty_witness:
  "GetGoogleCreds disk (credentials []) = Inl (Errorf ''no Google credentials provided'')
   \<and> GetGoogleCreds disk (credentials ''raw secret'') \<noteq> Inl (Errorf ''no Google credentials provided'')"
  using GetGoogleCreds_no_credentials_iff_empty [of disk "credentials []"]
        GetGoogleCreds_no_credentials_iff_empty [of disk "credentials ''raw secret''"]
  by (simp add: credentials_def zeroConfig_def)

text \<open>
  Against C7 as stated (every non-empty field gives bytes): the non-empty field
  \<open>./secrets\<close> gives an error.
\<close>

theorem GetGoogleCreds_unreadable_path_counterexample:
  "GoogleCredsJSON (credentials ''./secrets'') = ''./secrets''
   \<and> GetGoogleCreds disk (credentials ''./secrets'') = Inl (PathError ''read'' ''./secrets'' EISDIR)"
  by (simp add: GetGoogleCreds_def os_Stat_def os_ReadFile_def credentials_def zeroConfig_def
        disk_def DecodeString_def decodeMap_def)

end
